theory Spec2Isabelle
  imports Complex_Main "HOL-Library.Option_ord"
begin

section \<open>The session store (store/session.store.ts)\<close>

text \<open>
  The store is a zustand store: one immutable state object, replaced by \<open>set\<close>. Every
  action of the store is modelled as a function from the state before to the state after.
  A TypeScript \<open>number\<close> that carries a measurement is a \<open>real\<close> (the store only copies
  these values, it never computes with them); a counter that starts at 0 and is only
  incremented is a \<open>nat\<close>. \<open>T | null\<close> is \<open>T option\<close>. A \<open>Record<string, number>\<close> is a
  map from strings to reals. A \<open>Partial<T>\<close> is a record with one optional field per
  field of \<open>T\<close>: \<open>None\<close> when the property is absent from the object, \<open>Some v\<close> when it
  is present with value \<open>v\<close>. Values are those of the declared types; a property that is
  present with the value \<open>undefined\<close>, and the number \<open>NaN\<close>, are outside the model.
\<close>

subsection \<open>State types\<close>

datatype audio_status = AudioIdle | AudioRecording | AudioProcessing | AudioDone | AudioError

datatype session_status = SessIdle | SessRecording | SessProcessing | SessComplete | SessError

datatype user_role = supervisor | qa_manager

datatype event_type =
  session_start | session_stop | emotion_spike | speech_detected | face_detected | result_ready

text \<open>A value of type \<open>unknown\<close> that came out of \<open>JSON.parse\<close> or an object literal.\<close>

datatype json =
  JNull | JBool bool | JNum real | JStr string | JArr "json list" | JObj "(string \<times> json) list"

record audio_state =
  audio_amplitude :: real
  audio_isSpeech :: bool
  audio_duration :: real
  audio_status :: audio_status
  audio_totalFrames :: real
  audio_speechFrames :: real
  audio_error :: "string option"

record video_state =
  video_faceCount :: real
  video_dominantEmotion :: string
  video_confidence :: real
  video_totalFrames :: real
  video_duration :: real
  video_emotionCounts :: "string \<rightharpoonup> real"
  video_isRecording :: bool

text \<open>
  \<open>finalState\<close> is declared \<open>'SATISFIED' | 'NEUTRAL' | 'DISSATISFIED' | null\<close>, and
  \<open>setFinalResult\<close> stores a \<open>string\<close> in it through an unchecked cast, so the field
  holds any string or null.
\<close>

record agent_state =
  agent_finalState :: "string option"
  agent_confidence :: "string \<rightharpoonup> real"
  agent_reasoning :: "string list"
  agent_recommendation :: string

record session_meta =
  meta_id :: string
  meta_startTime :: "real option"
  meta_status :: session_status
  meta_videoActive :: "bool option"
  meta_audioActive :: "bool option"

record connection_state =
  conn_isConnected :: bool
  conn_isConnecting :: bool
  conn_reconnectCount :: nat
  conn_lastError :: "string option"

record video_stats =
  vs_is_recording :: bool
  vs_total_frames :: real
  vs_duration_seconds :: real
  vs_counts :: "string \<rightharpoonup> real"
  vs_current_emotion :: string
  vs_current_confidence :: real

record live_metrics =
  lm_amplitude :: real
  lm_is_speech :: bool
  lm_duration :: real

record final_result =
  fr_final_state :: string
  fr_confidence :: "string \<rightharpoonup> real"
  fr_reasoning :: "string list option"
  fr_recommendation :: "string option"

record timeline_event =
  ev_id :: string
  ev_type :: event_type
  ev_timestamp :: real
  ev_data :: "(string \<times> json) list option"

record session_store =
  role :: user_role
  session :: session_meta
  audio :: audio_state
  video :: video_state
  agent :: agent_state
  connection :: connection_state
  isLoading :: bool
  error :: "string option"
  events :: "timeline_event list"
  videoStats :: "video_stats option"
  audioMetrics :: "live_metrics option"
  finalResult :: "final_result option"

subsection \<open>Partial updates\<close>

record audio_partial =
  pa_amplitude :: "real option"
  pa_isSpeech :: "bool option"
  pa_duration :: "real option"
  pa_status :: "audio_status option"
  pa_totalFrames :: "real option"
  pa_speechFrames :: "real option"
  pa_error :: "string option option"

record video_partial =
  pv_faceCount :: "real option"
  pv_dominantEmotion :: "string option"
  pv_confidence :: "real option"
  pv_totalFrames :: "real option"
  pv_duration :: "real option"
  pv_emotionCounts :: "(string \<rightharpoonup> real) option"
  pv_isRecording :: "bool option"

record agent_partial =
  pg_finalState :: "string option option"
  pg_confidence :: "(string \<rightharpoonup> real) option"
  pg_reasoning :: "string list option"
  pg_recommendation :: "string option"

record session_partial =
  pm_id :: "string option"
  pm_startTime :: "real option option"
  pm_status :: "session_status option"
  pm_videoActive :: "bool option"
  pm_audioActive :: "bool option"

record connection_partial =
  pc_isConnected :: "bool option"
  pc_isConnecting :: "bool option"
  pc_reconnectCount :: "nat option"
  pc_lastError :: "string option option"

text \<open>
  One property of an object spread \<open>{ ...prev, ...partial }\<close>: the partial's value when
  the partial has the property, the previous value otherwise.
\<close>

definition spread :: "'a \<Rightarrow> 'a option \<Rightarrow> 'a" where
  "spread prev p = (case p of None \<Rightarrow> prev | Some v \<Rightarrow> v)"

definition spread_audio :: "audio_state \<Rightarrow> audio_partial \<Rightarrow> audio_state" where
  "spread_audio a p =
     \<lparr> audio_amplitude = spread (audio_amplitude a) (pa_amplitude p),
       audio_isSpeech = spread (audio_isSpeech a) (pa_isSpeech p),
       audio_duration = spread (audio_duration a) (pa_duration p),
       audio_status = spread (audio_status a) (pa_status p),
       audio_totalFrames = spread (audio_totalFrames a) (pa_totalFrames p),
       audio_speechFrames = spread (audio_speechFrames a) (pa_speechFrames p),
       audio_error = spread (audio_error a) (pa_error p) \<rparr>"

definition spread_video :: "video_state \<Rightarrow> video_partial \<Rightarrow> video_state" where
  "spread_video v p =
     \<lparr> video_faceCount = spread (video_faceCount v) (pv_faceCount p),
       video_dominantEmotion = spread (video_dominantEmotion v) (pv_dominantEmotion p),
       video_confidence = spread (video_confidence v) (pv_confidence p),
       video_totalFrames = spread (video_totalFrames v) (pv_totalFrames p),
       video_duration = spread (video_duration v) (pv_duration p),
       video_emotionCounts = spread (video_emotionCounts v) (pv_emotionCounts p),
       video_isRecording = spread (video_isRecording v) (pv_isRecording p) \<rparr>"

definition spread_agent :: "agent_state \<Rightarrow> agent_partial \<Rightarrow> agent_state" where
  "spread_agent g p =
     \<lparr> agent_finalState = spread (agent_finalState g) (pg_finalState p),
       agent_confidence = spread (agent_confidence g) (pg_confidence p),
       agent_reasoning = spread (agent_reasoning g) (pg_reasoning p),
       agent_recommendation = spread (agent_recommendation g) (pg_recommendation p) \<rparr>"

definition spread_session :: "session_meta \<Rightarrow> session_partial \<Rightarrow> session_meta" where
  "spread_session m p =
     \<lparr> meta_id = spread (meta_id m) (pm_id p),
       meta_startTime = spread (meta_startTime m) (pm_startTime p),
       meta_status = spread (meta_status m) (pm_status p),
       meta_videoActive = (case pm_videoActive p of None \<Rightarrow> meta_videoActive m | Some b \<Rightarrow> Some b),
       meta_audioActive = (case pm_audioActive p of None \<Rightarrow> meta_audioActive m | Some b \<Rightarrow> Some b) \<rparr>"

definition spread_connection :: "connection_state \<Rightarrow> connection_partial \<Rightarrow> connection_state" where
  "spread_connection c p =
     \<lparr> conn_isConnected = spread (conn_isConnected c) (pc_isConnected p),
       conn_isConnecting = spread (conn_isConnecting c) (pc_isConnecting p),
       conn_reconnectCount = spread (conn_reconnectCount c) (pc_reconnectCount p),
       conn_lastError = spread (conn_lastError c) (pc_lastError p) \<rparr>"

subsection \<open>Initial state\<close>

definition initialAudio :: audio_state where
  "initialAudio =
     \<lparr> audio_amplitude = 0, audio_isSpeech = False, audio_duration = 0,
       audio_status = AudioIdle, audio_totalFrames = 0, audio_speechFrames = 0,
       audio_error = None \<rparr>"

definition initialVideo :: video_state where
  "initialVideo =
     \<lparr> video_faceCount = 0, video_dominantEmotion = ''neutral'', video_confidence = 0,
       video_totalFrames = 0, video_duration = 0, video_emotionCounts = Map.empty,
       video_isRecording = False \<rparr>"

definition initialAgent :: agent_state where
  "initialAgent =
     \<lparr> agent_finalState = None, agent_confidence = Map.empty, agent_reasoning = [],
       agent_recommendation = [] \<rparr>"

definition initialSession :: session_meta where
  "initialSession =
     \<lparr> meta_id = [], meta_startTime = None, meta_status = SessIdle,
       meta_videoActive = Some False, meta_audioActive = Some False \<rparr>"

definition initialConnection :: connection_state where
  "initialConnection =
     \<lparr> conn_isConnected = False, conn_isConnecting = False, conn_reconnectCount = 0,
       conn_lastError = None \<rparr>"

text \<open>The state the store is created with.\<close>

definition initialStore :: session_store where
  "initialStore =
     \<lparr> role = supervisor, session = initialSession, audio = initialAudio,
       video = initialVideo, agent = initialAgent, connection = initialConnection,
       isLoading = False, error = None, events = [], videoStats = None,
       audioMetrics = None, finalResult = None \<rparr>"

subsection \<open>Actions\<close>

definition setRole :: "user_role \<Rightarrow> session_store \<Rightarrow> session_store" where
  "setRole r s = s\<lparr>role := r\<rparr>"

definition setSession :: "session_partial \<Rightarrow> session_store \<Rightarrow> session_store" where
  "setSession p s = s\<lparr>session := spread_session (session s) p\<rparr>"

definition resetSession :: "session_store \<Rightarrow> session_store" where
  "resetSession s =
     s\<lparr> session := initialSession, audio := initialAudio, video := initialVideo,
       agent := initialAgent, events := [], error := None, videoStats := None,
       audioMetrics := None, finalResult := None \<rparr>"

definition setAudioState :: "audio_partial \<Rightarrow> session_store \<Rightarrow> session_store" where
  "setAudioState p s = s\<lparr>audio := spread_audio (audio s) p\<rparr>"

definition resetAudio :: "session_store \<Rightarrow> session_store" where
  "resetAudio s = s\<lparr>audio := initialAudio\<rparr>"

definition setVideoState :: "video_partial \<Rightarrow> session_store \<Rightarrow> session_store" where
  "setVideoState p s = s\<lparr>video := spread_video (video s) p\<rparr>"

definition resetVideo :: "session_store \<Rightarrow> session_store" where
  "resetVideo s = s\<lparr>video := initialVideo\<rparr>"

definition setAgentState :: "agent_partial \<Rightarrow> session_store \<Rightarrow> session_store" where
  "setAgentState p s = s\<lparr>agent := spread_agent (agent s) p\<rparr>"

definition resetAgent :: "session_store \<Rightarrow> session_store" where
  "resetAgent s = s\<lparr>agent := initialAgent\<rparr>"

definition setConnectionState :: "connection_partial \<Rightarrow> session_store \<Rightarrow> session_store" where
  "setConnectionState p s = s\<lparr>connection := spread_connection (connection s) p\<rparr>"

definition setLoading :: "bool \<Rightarrow> session_store \<Rightarrow> session_store" where
  "setLoading b s = s\<lparr>isLoading := b\<rparr>"

definition setError :: "string option \<Rightarrow> session_store \<Rightarrow> session_store" where
  "setError e s = s\<lparr>error := e\<rparr>"

text \<open>
  \<open>xs.slice(-n)\<close>: the last \<open>n\<close> elements of the array, all of it when it has fewer.
\<close>

definition slice_last :: "nat \<Rightarrow> 'a list \<Rightarrow> 'a list" where
  "slice_last n xs = drop (length xs - n) xs"

definition addEvent :: "timeline_event \<Rightarrow> session_store \<Rightarrow> session_store" where
  "addEvent e s = s\<lparr>events := slice_last 49 (events s) @ [e]\<rparr>"

definition clearEvents :: "session_store \<Rightarrow> session_store" where
  "clearEvents s = s\<lparr>events := []\<rparr>"

definition setVideoStats :: "video_stats option \<Rightarrow> session_store \<Rightarrow> session_store" where
  "setVideoStats stats s =
     (let s1 = s\<lparr>videoStats := stats\<rparr> in
      case stats of
        None \<Rightarrow> s1
      | Some st \<Rightarrow>
          s1\<lparr>video := (video s1)
            \<lparr> video_faceCount := 0,
              video_dominantEmotion := vs_current_emotion st,
              video_confidence := vs_current_confidence st,
              video_totalFrames := vs_total_frames st,
              video_duration := vs_duration_seconds st,
              video_emotionCounts := vs_counts st,
              video_isRecording := vs_is_recording st \<rparr>\<rparr>)"

definition setAudioMetrics :: "live_metrics option \<Rightarrow> session_store \<Rightarrow> session_store" where
  "setAudioMetrics metrics s =
     (let s1 = s\<lparr>audioMetrics := metrics\<rparr> in
      case metrics of
        None \<Rightarrow> s1
      | Some m \<Rightarrow>
          s1\<lparr>audio := (audio s1)
            \<lparr> audio_amplitude := lm_amplitude m,
              audio_isSpeech := lm_is_speech m,
              audio_duration := lm_duration m,
              audio_status := AudioRecording \<rparr>\<rparr>)"

text \<open>
  \<open>result.reasoning || []\<close> and \<open>result.recommendation || ''\<close>: the default replaces a
  missing property (and an empty recommendation, which is falsy, by the empty string).
  \<open>result.confidence || {}\<close> is the confidence object, which the type requires.
\<close>

definition setFinalResult :: "final_result option \<Rightarrow> session_store \<Rightarrow> session_store" where
  "setFinalResult result s =
     (let s1 = s\<lparr>finalResult := result\<rparr> in
      case result of
        None \<Rightarrow> s1
      | Some r \<Rightarrow>
          s1\<lparr>agent := (agent s1)
            \<lparr> agent_finalState := Some (fr_final_state r),
              agent_confidence := fr_confidence r,
              agent_reasoning := (case fr_reasoning r of None \<Rightarrow> [] | Some xs \<Rightarrow> xs),
              agent_recommendation := (case fr_recommendation r of None \<Rightarrow> [] | Some t \<Rightarrow> t) \<rparr>\<rparr>)"

text \<open>Every action of the store, and a run of actions from a state.\<close>

datatype store_action =
  SetRole user_role
  | SetSession session_partial
  | ResetSession
  | SetAudioState audio_partial
  | ResetAudio
  | SetVideoState video_partial
  | ResetVideo
  | SetAgentState agent_partial
  | ResetAgent
  | SetConnectionState connection_partial
  | SetLoading bool
  | SetError "string option"
  | AddEvent timeline_event
  | ClearEvents
  | SetVideoStats "video_stats option"
  | SetAudioMetrics "live_metrics option"
  | SetFinalResult "final_result option"

fun apply_action :: "store_action \<Rightarrow> session_store \<Rightarrow> session_store" where
  "apply_action (SetRole r) s = setRole r s"
| "apply_action (SetSession p) s = setSession p s"
| "apply_action ResetSession s = resetSession s"
| "apply_action (SetAudioState p) s = setAudioState p s"
| "apply_action ResetAudio s = resetAudio s"
| "apply_action (SetVideoState p) s = setVideoState p s"
| "apply_action ResetVideo s = resetVideo s"
| "apply_action (SetAgentState p) s = setAgentState p s"
| "apply_action ResetAgent s = resetAgent s"
| "apply_action (SetConnectionState p) s = setConnectionState p s"
| "apply_action (SetLoading b) s = setLoading b s"
| "apply_action (SetError e) s = setError e s"
| "apply_action (AddEvent e) s = addEvent e s"
| "apply_action ClearEvents s = clearEvents s"
| "apply_action (SetVideoStats v) s = setVideoStats v s"
| "apply_action (SetAudioMetrics m) s = setAudioMetrics m s"
| "apply_action (SetFinalResult r) s = setFinalResult r s"

definition run :: "store_action list \<Rightarrow> session_store \<Rightarrow> session_store" where
  "run acts s = foldl (\<lambda>st a. apply_action a st) s acts"

section \<open>The push channel (hooks/useWebSocket.ts)\<close>

text \<open>
  The hook keeps a React state object, five refs and one WebSocket at a time. Its
  functions and the handlers it installs on a socket run one at a time, each to
  completion; each is modelled as a function on a record holding the hook's state and
  refs together with what they act on: the WebSocket objects constructed so far, the
  frames sent, the configuration callbacks invoked (in order), and the session store.
  A ref that holds a timer handle is modelled by whether it is non-null.
\<close>

subsection \<open>Frames\<close>

text \<open>
  A decoded frame: its \<open>type\<close> together with the properties of \<open>data\<close> that the case
  for that type reads (\<open>data\<close> is an object, as the type of the envelope says). A property
  missing from \<open>data\<close> is \<open>None\<close>; \<open>data\<close> itself is tested only in the case for
  \<open>final_result\<close>, whose payload is \<open>None\<close> when \<open>data\<close> is null. The types
  \<open>disconnected\<close> and \<open>session_state\<close>, and any type the client does not know, reach the
  \<open>default\<close> branch of the switch.
\<close>

record video_wire =
  vw_total_frames :: "real option"
  vw_duration :: "real option"
  vw_emotion_counts :: "(string \<rightharpoonup> real) option"
  vw_dominant_emotion :: "string option"
  vw_confidence :: "real option"
  vw_face_count :: "real option"

record audio_wire =
  aw_amplitude :: "real option"
  aw_is_speech :: "bool option"
  aw_duration :: "real option"

datatype ws_event =
  Video_stats video_wire
  | Audio_metrics audio_wire
  | Audio_status
  | Session_completed
  | Final_result "final_result option"
  | Error_frame "string option"
  | Connected
  | Heartbeat
  | Pong
  | Unhandled string

datatype client_frame = Ping

text \<open>
  \<open>v || d\<close> on a property that may be missing: the default replaces a missing value and
  a falsy one (\<open>0\<close>, the empty string, \<open>false\<close>).
\<close>

definition or_num :: "real option \<Rightarrow> real \<Rightarrow> real" where
  "or_num v d = (case v of None \<Rightarrow> d | Some x \<Rightarrow> if x = 0 then d else x)"

definition or_str :: "string option \<Rightarrow> string \<Rightarrow> string" where
  "or_str v d = (case v of None \<Rightarrow> d | Some x \<Rightarrow> if x = [] then d else x)"

definition or_bool :: "bool option \<Rightarrow> bool \<Rightarrow> bool" where
  "or_bool v d = (case v of None \<Rightarrow> d | Some x \<Rightarrow> if x then x else d)"

definition default_counts :: "string \<rightharpoonup> real" where
  "default_counts = [''happy'' \<mapsto> 0, ''neutral'' \<mapsto> 0, ''sad'' \<mapsto> 0, ''angry'' \<mapsto> 0]"

subsection \<open>State of the hook\<close>

datatype ready_state = CONNECTING | OPEN | CLOSING | CLOSED

record socket =
  url :: string
  readyState :: ready_state

record web_socket_state =
  ws_isConnected :: bool
  ws_isConnecting :: bool
  ws_error :: "string option"
  ws_lastMessage :: "ws_event option"
  ws_reconnectCount :: nat
  ws_lastHeartbeat :: "real option"
  ws_missedPongs :: nat

datatype callback = OnConnect | OnDisconnect | OnError | OnMessage ws_event

record web_socket_config =
  sessionId :: string
  autoConnect :: bool
  reconnectAttempts :: nat

record ws_hook =
  state :: web_socket_state
  wsRef :: "nat option"
  pingIntervalRef :: bool
  reconnectTimeoutRef :: bool
  shouldReconnectRef :: bool
  missedPongsRef :: nat
  sockets :: "socket list"
  sent :: "(nat \<times> client_frame) list"
  callbacks :: "callback list"
  store :: session_store

definition WS_BASE_URL :: string where
  "WS_BASE_URL = ''ws://localhost:8000''"

definition MAX_MISSED_PONGS :: nat where
  "MAX_MISSED_PONGS = 3"

definition initialState :: web_socket_state where
  "initialState =
     \<lparr> ws_isConnected = False, ws_isConnecting = False, ws_error = None,
       ws_lastMessage = None, ws_reconnectCount = 0, ws_lastHeartbeat = None,
       ws_missedPongs = 0 \<rparr>"

text \<open>The hook as \<open>useWebSocket\<close> creates it, over the initial store.\<close>

definition initialHook :: ws_hook where
  "initialHook =
     \<lparr> state = initialState, wsRef = None, pingIntervalRef = False,
       reconnectTimeoutRef = False, shouldReconnectRef = True, missedPongsRef = 0,
       sockets = [], sent = [], callbacks = [], store = initialStore \<rparr>"

subsection \<open>The WebSocket objects\<close>

text \<open>
  \<open>wsRef.current?.readyState\<close>: \<open>None\<close> when the ref is null. The ref only ever holds
  a socket that \<open>connect\<close> constructed.
\<close>

definition wsRef_readyState :: "ws_hook \<Rightarrow> ready_state option" where
  "wsRef_readyState w =
     (case wsRef w of
        None \<Rightarrow> None
      | Some i \<Rightarrow> if i < length (sockets w) then Some (readyState (sockets w ! i)) else None)"

text \<open>
  \<open>WebSocket.close()\<close>: a socket that is connecting or open starts closing; one that is
  closing or closed is left as it is. The close event comes later, as a task of its own.
\<close>

definition close_socket :: "socket \<Rightarrow> socket" where
  "close_socket k =
     (if readyState k = CONNECTING \<or> readyState k = OPEN then k\<lparr>readyState := CLOSING\<rparr> else k)"

definition ws_close :: "nat \<Rightarrow> ws_hook \<Rightarrow> ws_hook" where
  "ws_close i w =
     (if i < length (sockets w)
      then w\<lparr>sockets := (sockets w)[i := close_socket (sockets w ! i)]\<rparr>
      else w)"

definition ws_send :: "nat \<Rightarrow> client_frame \<Rightarrow> ws_hook \<Rightarrow> ws_hook" where
  "ws_send i f w = w\<lparr>sent := sent w @ [(i, f)]\<rparr>"

text \<open>The transports that are not closed: connecting, open or closing.\<close>

definition live_sockets :: "ws_hook \<Rightarrow> nat" where
  "live_sockets w = length (filter (\<lambda>k. readyState k \<noteq> CLOSED) (sockets w))"

subsection \<open>Message handler\<close>

text \<open>
  \<open>handleMessage\<close> at time \<open>now\<close> (the value of \<open>Date.now()\<close>). The message is \<open>None\<close>
  when \<open>JSON.parse\<close> throws: the handler logs and changes nothing.
\<close>

definition handleMessage :: "real \<Rightarrow> ws_event option \<Rightarrow> ws_hook \<Rightarrow> ws_hook" where
  "handleMessage now msg w =
     (case msg of
        None \<Rightarrow> w
      | Some wsEvent \<Rightarrow>
          (let w1 = w\<lparr>state := (state w)\<lparr>ws_lastMessage := Some wsEvent\<rparr>\<rparr>;
               w2 =
                 (case wsEvent of
                    Video_stats d \<Rightarrow>
                      w1\<lparr>store := setVideoStats (Some
                        \<lparr> vs_is_recording = True,
                          vs_total_frames = or_num (vw_total_frames d) 0,
                          vs_duration_seconds = or_num (vw_duration d) 0,
                          vs_counts = default_counts ++
                            (case vw_emotion_counts d of None \<Rightarrow> Map.empty | Some m \<Rightarrow> m),
                          vs_current_emotion = or_str (vw_dominant_emotion d) ''neutral'',
                          vs_current_confidence = or_num (vw_confidence d) 0 \<rparr>) (store w1)\<rparr>
                  | Audio_metrics d \<Rightarrow>
                      w1\<lparr>store := setAudioMetrics (Some
                        \<lparr> lm_amplitude = or_num (aw_amplitude d) 0,
                          lm_is_speech = or_bool (aw_is_speech d) False,
                          lm_duration = or_num (aw_duration d) 0 \<rparr>) (store w1)\<rparr>
                  | Audio_status \<Rightarrow> w1
                  | Session_completed \<Rightarrow> w1
                  | Final_result r \<Rightarrow>
                      (case r of
                         None \<Rightarrow> w1
                       | Some res \<Rightarrow> w1\<lparr>store := setFinalResult (Some res) (store w1)\<rparr>)
                  | Error_frame m \<Rightarrow> w1\<lparr>store := setError m (store w1)\<rparr>
                  | Connected \<Rightarrow> w1
                  | Heartbeat \<Rightarrow> w1\<lparr>state := (state w1)\<lparr>ws_lastHeartbeat := Some now\<rparr>\<rparr>
                  | Pong \<Rightarrow>
                      w1\<lparr> missedPongsRef := 0,
                          state := (state w1)\<lparr>ws_lastHeartbeat := Some now, ws_missedPongs := 0\<rparr> \<rparr>
                  | Unhandled t \<Rightarrow> w1)
           in w2\<lparr>callbacks := callbacks w2 @ [OnMessage wsEvent]\<rparr>))"

subsection \<open>Heartbeat\<close>

definition startPing :: "ws_hook \<Rightarrow> ws_hook" where
  "startPing w = w\<lparr>missedPongsRef := 0, pingIntervalRef := True\<rparr>"

definition stopPing :: "ws_hook \<Rightarrow> ws_hook" where
  "stopPing w = w\<lparr>pingIntervalRef := False, missedPongsRef := 0\<rparr>"

text \<open>The callback that \<open>startPing\<close> gives to \<open>setInterval\<close>: one run per probe interval.\<close>

definition ping_tick :: "ws_hook \<Rightarrow> ws_hook" where
  "ping_tick w =
     (case wsRef w of
        None \<Rightarrow> w
      | Some i \<Rightarrow>
          if wsRef_readyState w = Some OPEN then
            (let w1 = w\<lparr>missedPongsRef := missedPongsRef w + 1\<rparr> in
             if missedPongsRef w1 > MAX_MISSED_PONGS then ws_close i w1
             else
               (let w2 = ws_send i Ping w1 in
                w2\<lparr>state := (state w2)\<lparr>ws_missedPongs := missedPongsRef w2\<rparr>\<rparr>))
          else w)"

subsection \<open>Connecting and disconnecting\<close>

definition connect :: "web_socket_config \<Rightarrow> ws_hook \<Rightarrow> ws_hook" where
  "connect cfg w =
     (if wsRef_readyState w = Some OPEN then w
      else
        (let w1 = w\<lparr>state := (state w)\<lparr>ws_isConnecting := True, ws_error := None\<rparr>\<rparr>;
             wsUrl = WS_BASE_URL @ ''/ws/session/'' @ sessionId cfg;
             ws = length (sockets w1)
         in w1\<lparr> sockets := sockets w1 @ [\<lparr> url = wsUrl, readyState = CONNECTING \<rparr>],
                wsRef := Some ws \<rparr>))"

definition ws_onopen :: "ws_hook \<Rightarrow> ws_hook" where
  "ws_onopen w =
     (let w1 = w\<lparr>state := (state w)
                 \<lparr> ws_isConnected := True, ws_isConnecting := False, ws_error := None,
                   ws_reconnectCount := 0 \<rparr>\<rparr>;
          w2 = startPing w1
      in w2\<lparr>callbacks := callbacks w2 @ [OnConnect]\<rparr>)"

definition ws_onerror :: "ws_hook \<Rightarrow> ws_hook" where
  "ws_onerror w =
     (let w1 = w\<lparr>state := (state w)
                 \<lparr> ws_error := Some ''WebSocket connection error'', ws_isConnecting := False \<rparr>\<rparr>
      in w1\<lparr>callbacks := callbacks w1 @ [OnError]\<rparr>)"

text \<open>
  The close handler. \<open>rc\<close> is \<open>state.reconnectCount\<close> as the closure of the \<open>connect\<close>
  that installed the handler captured it.
\<close>

definition ws_onclose :: "web_socket_config \<Rightarrow> nat \<Rightarrow> ws_hook \<Rightarrow> ws_hook" where
  "ws_onclose cfg rc w =
     (let w1 = w\<lparr>state := (state w)\<lparr>ws_isConnected := False, ws_isConnecting := False\<rparr>\<rparr>;
          w2 = stopPing w1;
          w3 = w2\<lparr>callbacks := callbacks w2 @ [OnDisconnect]\<rparr>
      in if shouldReconnectRef w3 \<and> rc < reconnectAttempts cfg
         then w3\<lparr>reconnectTimeoutRef := True\<rparr>
         else w3)"

text \<open>The callback that the close handler gives to \<open>setTimeout\<close>.\<close>

definition reconnect_timeout :: "web_socket_config \<Rightarrow> ws_hook \<Rightarrow> ws_hook" where
  "reconnect_timeout cfg w =
     connect cfg (w\<lparr>state := (state w)\<lparr>ws_reconnectCount := ws_reconnectCount (state w) + 1\<rparr>\<rparr>)"

definition disconnect :: "ws_hook \<Rightarrow> ws_hook" where
  "disconnect w =
     (let w1 = w\<lparr>shouldReconnectRef := False\<rparr>;
          w2 = w1\<lparr>reconnectTimeoutRef := False\<rparr>;
          w3 = stopPing w2;
          w4 = (case wsRef w3 of None \<Rightarrow> w3 | Some i \<Rightarrow> (ws_close i w3)\<lparr>wsRef := None\<rparr>)
      in w4\<lparr>state := initialState\<rparr>)"

text \<open>The auto-connect effect, run on mount and when \<open>autoConnect\<close> or \<open>sessionId\<close> change;
  its cleanup is \<open>disconnect\<close>.\<close>

definition autoConnect_effect :: "web_socket_config \<Rightarrow> ws_hook \<Rightarrow> ws_hook" where
  "autoConnect_effect cfg w =
     (if autoConnect cfg \<and> sessionId cfg \<noteq> []
      then connect cfg (w\<lparr>shouldReconnectRef := True\<rparr>)
      else w)"

subsection \<open>What the browser does to a socket\<close>

text \<open>
  The transport of socket \<open>i\<close> opens: the socket becomes \<open>OPEN\<close> and its open handler
  runs. The transport of socket \<open>i\<close> is closed (by the server, by a failure, or at the
  end of the closing the client started): the socket becomes \<open>CLOSED\<close> and its close
  handler runs.
\<close>

definition set_readyState :: "nat \<Rightarrow> ready_state \<Rightarrow> ws_hook \<Rightarrow> ws_hook" where
  "set_readyState i r w =
     (if i < length (sockets w)
      then w\<lparr>sockets := (sockets w)[i := (sockets w ! i)\<lparr>readyState := r\<rparr>]\<rparr>
      else w)"

definition transport_open :: "nat \<Rightarrow> ws_hook \<Rightarrow> ws_hook" where
  "transport_open i w = ws_onopen (set_readyState i OPEN w)"

definition transport_closed :: "web_socket_config \<Rightarrow> nat \<Rightarrow> nat \<Rightarrow> ws_hook \<Rightarrow> ws_hook" where
  "transport_closed cfg rc i w = ws_onclose cfg rc (set_readyState i CLOSED w)"

section \<open>The dashboard's message callback (app/dashboard/page.tsx)\<close>

text \<open>The \<open>onMessage\<close> callback that the dashboard passes to the hook, as an action on
  the store.\<close>

definition dashboard_onMessage :: "ws_event \<Rightarrow> session_store \<Rightarrow> session_store" where
  "dashboard_onMessage event s =
     (case event of
        Video_stats d \<Rightarrow>
          setVideoState
            \<lparr> pv_faceCount = Some (or_num (vw_face_count d) 0),
              pv_dominantEmotion = Some (or_str (vw_dominant_emotion d) ''neutral''),
              pv_confidence = Some (or_num (vw_confidence d) 0),
              pv_totalFrames = Some (or_num (vw_total_frames d) 0),
              pv_duration = Some (or_num (vw_duration d) 0),
              pv_emotionCounts = None,
              pv_isRecording = Some True \<rparr> s
      | Audio_metrics d \<Rightarrow>
          setAudioMetrics (Some
            \<lparr> lm_amplitude = or_num (aw_amplitude d) 0,
              lm_is_speech = or_bool (aw_is_speech d) False,
              lm_duration = or_num (aw_duration d) 0 \<rparr>) s
      | _ \<Rightarrow> s)"


section \<open>The audio metrics poll (hooks/useAudioMetrics.ts)\<close>

text \<open>
  The polling effect keeps one interval timer. \<open>fetchMetrics\<close> is asynchronous: the call
  issues the request and returns; when the request settles, the rest of the function runs
  as a task of its own. The record counts the requests issued and not yet settled.
\<close>

record metrics_poll =
  intervalRef :: bool
  requests :: nat
  poll_store :: session_store




text \<open>\<open>fetchMetrics\<close> after its \<open>await\<close>, when the request failed: the error is logged.\<close>

definition fetchMetrics_rejected :: "metrics_poll \<Rightarrow> metrics_poll" where
  "fetchMetrics_rejected q = q\<lparr>requests := requests q - 1\<rparr>"




section \<open>Runs and sample inputs\<close>

text \<open>\<open>n\<close> probe intervals in a row, with nothing handled in between.\<close>

fun ticks :: "nat \<Rightarrow> ws_hook \<Rightarrow> ws_hook" where
  "ticks 0 w = w"
| "ticks (Suc n) w = ticks n (ping_tick w)"

text \<open>The store before and after each update of a sequence of \<open>setVideoState\<close> calls.\<close>

fun video_trace :: "session_store \<Rightarrow> video_partial list \<Rightarrow> session_store list" where
  "video_trace s [] = [s]"
| "video_trace s (p # ps) = s # video_trace (setVideoState p s) ps"

text \<open>
  The frame counts that a sequence of updates carries never go below the value before
  them (\<open>cur\<close> at the start); an update that carries no frame count is skipped. The same
  for the count of emotion \<open>k\<close>, where a key missing from the counts is below every number.
\<close>

fun carried_frames_nondecreasing :: "real \<Rightarrow> video_partial list \<Rightarrow> bool" where
  "carried_frames_nondecreasing cur [] = True"
| "carried_frames_nondecreasing cur (p # ps) =
     (case pv_totalFrames p of
        None \<Rightarrow> carried_frames_nondecreasing cur ps
      | Some n \<Rightarrow> cur \<le> n \<and> carried_frames_nondecreasing n ps)"

fun carried_count_nondecreasing :: "string \<Rightarrow> real option \<Rightarrow> video_partial list \<Rightarrow> bool" where
  "carried_count_nondecreasing k cur [] = True"
| "carried_count_nondecreasing k cur (p # ps) =
     (case pv_emotionCounts p of
        None \<Rightarrow> carried_count_nondecreasing k cur ps
      | Some m \<Rightarrow> cur \<le> m k \<and> carried_count_nondecreasing k (m k) ps)"

text \<open>A hook configured for session \<open>SESS_1\<close>: after the auto-connect effect, and after its
  socket has opened.\<close>

definition cfg0 :: web_socket_config where
  "cfg0 = \<lparr> sessionId = ''SESS_1'', autoConnect = True, reconnectAttempts = 5 \<rparr>"

definition w_connecting :: ws_hook where
  "w_connecting = autoConnect_effect cfg0 initialHook"

definition w_open :: ws_hook where
  "w_open = transport_open 0 w_connecting"


text \<open>A server heartbeat frame, handled at time 1000.\<close>

definition hb :: "ws_hook \<Rightarrow> ws_hook" where
  "hb = handleMessage 1000 (Some Heartbeat)"

text \<open>Metrics payloads, a running poll with its first request in flight, and a store in
  the middle of a session.\<close>

definition m_old :: live_metrics where
  "m_old = \<lparr> lm_amplitude = 1/4, lm_is_speech = False, lm_duration = 1 \<rparr>"

definition m0 :: live_metrics where
  "m0 = \<lparr> lm_amplitude = 1/2, lm_is_speech = True, lm_duration = 3 \<rparr>"


definition s_live :: session_store where
  "s_live =
     run [SetSession \<lparr> pm_id = Some ''SESS_1'', pm_startTime = Some (Some 0),
                       pm_status = Some SessRecording, pm_videoActive = None,
                       pm_audioActive = None \<rparr>,
          SetAudioMetrics (Some m_old)] initialStore"

text \<open>Final results and agent partials.\<close>

definition rS :: final_result where
  "rS = \<lparr> fr_final_state = ''SATISFIED'', fr_confidence = [''satisfied'' \<mapsto> 9/10],
          fr_reasoning = Some [], fr_recommendation = Some [] \<rparr>"

definition rN :: final_result where
  "rN = \<lparr> fr_final_state = ''NEUTRAL'', fr_confidence = [''neutral'' \<mapsto> 8/10],
          fr_reasoning = Some [], fr_recommendation = Some [] \<rparr>"

definition pNeutral :: agent_partial where
  "pNeutral = \<lparr> pg_finalState = Some (Some ''NEUTRAL''), pg_confidence = None,
                pg_reasoning = None, pg_recommendation = None \<rparr>"

definition pNull :: agent_partial where
  "pNull = \<lparr> pg_finalState = Some None, pg_confidence = None,
             pg_reasoning = None, pg_recommendation = None \<rparr>"

text \<open>A \<open>video_stats\<close> frame and a video partial carrying \<open>n\<close> frames and \<open>h\<close> happy
  frames.\<close>

definition frame :: "real \<Rightarrow> real \<Rightarrow> ws_event" where
  "frame n h = Video_stats
     \<lparr> vw_total_frames = Some n, vw_duration = Some 1,
       vw_emotion_counts = Some [''happy'' \<mapsto> h], vw_dominant_emotion = Some ''happy'',
       vw_confidence = Some (9/10), vw_face_count = Some 1 \<rparr>"

definition frames_partial :: "real \<Rightarrow> real \<Rightarrow> video_partial" where
  "frames_partial n h =
     \<lparr> pv_faceCount = None, pv_dominantEmotion = None, pv_confidence = None,
       pv_totalFrames = Some n, pv_duration = None,
       pv_emotionCounts = Some [''happy'' \<mapsto> h], pv_isRecording = None \<rparr>"

text \<open>A \<open>video_stats\<close> frame whose \<open>data\<close> has the dominant emotion and nothing else.\<close>

definition frame_missing :: ws_event where
  "frame_missing = Video_stats
     \<lparr> vw_total_frames = None, vw_duration = None, vw_emotion_counts = None,
       vw_dominant_emotion = Some ''happy'', vw_confidence = None, vw_face_count = None \<rparr>"

text \<open>The \<open>i\<close>-th of a series of timeline events.\<close>

definition mk :: "nat \<Rightarrow> timeline_event" where
  "mk i = \<lparr> ev_id = ''evt'', ev_type = session_start, ev_timestamp = real i, ev_data = None \<rparr>"

section \<open>Properties of the store\<close>

subsection \<open>Timeline buffer\<close>

lemma slice_last_snoc: "slice_last n xs @ [e] = slice_last (Suc n) (xs @ [e])"
  by (simp add: slice_last_def Suc_diff_le)

lemma slice_last_twice: "slice_last n (slice_last n xs @ ys) = slice_last n (xs @ ys)"
  by (cases "length xs \<le> n") (simp_all add: slice_last_def add.commute)

lemma events_addEvent: "events (addEvent e s) = slice_last 50 (events s @ [e])"
  using slice_last_snoc [of 49 "events s" e] by (simp add: addEvent_def)

lemma events_apply_action_bound:
  "length (events s) \<le> 50 \<Longrightarrow> length (events (apply_action a s)) \<le> 50"
  by (cases a)
     (simp_all add: setRole_def setSession_def resetSession_def setAudioState_def
        resetAudio_def setVideoState_def resetVideo_def setAgentState_def resetAgent_def
        setConnectionState_def setLoading_def setError_def addEvent_def clearEvents_def
        setVideoStats_def setAudioMetrics_def setFinalResult_def slice_last_def Let_def
        split: option.splits)

lemma events_run_bound:
  "length (events s) \<le> 50 \<Longrightarrow> length (events (run acts s)) \<le> 50"
  unfolding run_def
  by (induction acts arbitrary: s) (simp_all add: events_apply_action_bound)

lemma events_run_AddEvent:
  "es \<noteq> [] \<Longrightarrow> events (run (map AddEvent es) s) = slice_last 50 (events s @ es)"
  unfolding run_def
proof (induction es arbitrary: s)
  case Nil
  then show ?case by simp
next
  case (Cons e es)
  show ?case
  proof (cases "es = []")
    case True
    then show ?thesis by (simp add: events_addEvent)
  next
    case False
    from Cons.IH [OF False, of "addEvent e s"]
    show ?thesis
      using slice_last_twice [of 50 "events s @ [e]" es]
      by (simp add: events_addEvent)
  qed
qed

text \<open>
  C7. In every state that the store reaches from its initial state by any sequence of
  its actions, the timeline holds at most 50 events. Adding 60 events with \<open>addEvent\<close>,
  from any state, leaves exactly 50: the 60 without their first 10, in the order they
  were added.
\<close>

theorem timeline_bound:
  "length (events (run acts initialStore)) \<le> 50 \<and>
   (length es = 60 \<longrightarrow>
      events (run (map AddEvent es) s) = drop 10 es \<and>
      length (events (run (map AddEvent es) s)) = 50)"
proof -
  have a: "length (events (run acts initialStore)) \<le> 50"
    by (rule events_run_bound) (simp add: initialStore_def)
  have b: "events (run (map AddEvent es) s) = drop 10 es" if "length es = 60"
  proof -
    from that have "es \<noteq> []" by auto
    then have "events (run (map AddEvent es) s) = slice_last 50 (events s @ es)"
      by (rule events_run_AddEvent)
    also have "\<dots> = drop 10 es" using that by (simp add: slice_last_def)
    finally show ?thesis .
  qed
  from a b show ?thesis by auto
qed

theorem timeline_bound_witness:
  "length (map mk [0..<60]) = 60 \<and>
   map ev_timestamp (events (run (map AddEvent (map mk [0..<60])) initialStore)) =
     map real [10..<60] \<and>
   length (events (run (map AddEvent (map mk [0..<60])) initialStore)) = 50"
  using timeline_bound [of "[]" "map mk [0..<60]" initialStore]
  by (simp add: drop_map mk_def comp_def)

subsection \<open>Merging partial updates\<close>

lemma spread_spread: "spread (spread x p) p = spread x p"
  by (simp add: spread_def split: option.splits)

lemma spread_audio_twice: "spread_audio (spread_audio a p) p = spread_audio a p"
  by (simp add: spread_audio_def spread_spread)

text \<open>
  C9. Applying the same audio update twice in a row, by \<open>setAudioState\<close> or by
  \<open>setAudioMetrics\<close>, gives the same store (so the same audio view) as applying it once.
\<close>

theorem audio_merge_idempotent:
  "setAudioState p (setAudioState p s) = setAudioState p s \<and>
   setAudioMetrics m (setAudioMetrics m s) = setAudioMetrics m s"
  by (simp add: setAudioState_def setAudioMetrics_def spread_audio_twice Let_def
      split: option.splits)

lemma setAudioState_fields:
  "audio_amplitude (audio (setAudioState p s)) =
     (case pa_amplitude p of None \<Rightarrow> audio_amplitude (audio s) | Some v \<Rightarrow> v) \<and>
   audio_isSpeech (audio (setAudioState p s)) =
     (case pa_isSpeech p of None \<Rightarrow> audio_isSpeech (audio s) | Some v \<Rightarrow> v) \<and>
   audio_duration (audio (setAudioState p s)) =
     (case pa_duration p of None \<Rightarrow> audio_duration (audio s) | Some v \<Rightarrow> v) \<and>
   audio_status (audio (setAudioState p s)) =
     (case pa_status p of None \<Rightarrow> audio_status (audio s) | Some v \<Rightarrow> v) \<and>
   audio_totalFrames (audio (setAudioState p s)) =
     (case pa_totalFrames p of None \<Rightarrow> audio_totalFrames (audio s) | Some v \<Rightarrow> v) \<and>
   audio_speechFrames (audio (setAudioState p s)) =
     (case pa_speechFrames p of None \<Rightarrow> audio_speechFrames (audio s) | Some v \<Rightarrow> v) \<and>
   audio_error (audio (setAudioState p s)) =
     (case pa_error p of None \<Rightarrow> audio_error (audio s) | Some v \<Rightarrow> v) \<and>
   setAudioState p s = s\<lparr>audio := audio (setAudioState p s)\<rparr>"
  by (simp add: setAudioState_def spread_audio_def spread_def)

lemma setVideoState_fields:
  "video_faceCount (video (setVideoState p s)) =
     (case pv_faceCount p of None \<Rightarrow> video_faceCount (video s) | Some v \<Rightarrow> v) \<and>
   video_dominantEmotion (video (setVideoState p s)) =
     (case pv_dominantEmotion p of None \<Rightarrow> video_dominantEmotion (video s) | Some v \<Rightarrow> v) \<and>
   video_confidence (video (setVideoState p s)) =
     (case pv_confidence p of None \<Rightarrow> video_confidence (video s) | Some v \<Rightarrow> v) \<and>
   video_totalFrames (video (setVideoState p s)) =
     (case pv_totalFrames p of None \<Rightarrow> video_totalFrames (video s) | Some v \<Rightarrow> v) \<and>
   video_duration (video (setVideoState p s)) =
     (case pv_duration p of None \<Rightarrow> video_duration (video s) | Some v \<Rightarrow> v) \<and>
   video_emotionCounts (video (setVideoState p s)) =
     (case pv_emotionCounts p of None \<Rightarrow> video_emotionCounts (video s) | Some v \<Rightarrow> v) \<and>
   video_isRecording (video (setVideoState p s)) =
     (case pv_isRecording p of None \<Rightarrow> video_isRecording (video s) | Some v \<Rightarrow> v) \<and>
   setVideoState p s = s\<lparr>video := video (setVideoState p s)\<rparr>"
  by (simp add: setVideoState_def spread_video_def spread_def)

lemma setAgentState_fields:
  "agent_finalState (agent (setAgentState p s)) =
     (case pg_finalState p of None \<Rightarrow> agent_finalState (agent s) | Some v \<Rightarrow> v) \<and>
   agent_confidence (agent (setAgentState p s)) =
     (case pg_confidence p of None \<Rightarrow> agent_confidence (agent s) | Some v \<Rightarrow> v) \<and>
   agent_reasoning (agent (setAgentState p s)) =
     (case pg_reasoning p of None \<Rightarrow> agent_reasoning (agent s) | Some v \<Rightarrow> v) \<and>
   agent_recommendation (agent (setAgentState p s)) =
     (case pg_recommendation p of None \<Rightarrow> agent_recommendation (agent s) | Some v \<Rightarrow> v) \<and>
   setAgentState p s = s\<lparr>agent := agent (setAgentState p s)\<rparr>"
  by (simp add: setAgentState_def spread_agent_def spread_def)

lemma setConnectionState_fields:
  "conn_isConnected (connection (setConnectionState p s)) =
     (case pc_isConnected p of None \<Rightarrow> conn_isConnected (connection s) | Some v \<Rightarrow> v) \<and>
   conn_isConnecting (connection (setConnectionState p s)) =
     (case pc_isConnecting p of None \<Rightarrow> conn_isConnecting (connection s) | Some v \<Rightarrow> v) \<and>
   conn_reconnectCount (connection (setConnectionState p s)) =
     (case pc_reconnectCount p of None \<Rightarrow> conn_reconnectCount (connection s) | Some v \<Rightarrow> v) \<and>
   conn_lastError (connection (setConnectionState p s)) =
     (case pc_lastError p of None \<Rightarrow> conn_lastError (connection s) | Some v \<Rightarrow> v) \<and>
   setConnectionState p s = s\<lparr>connection := connection (setConnectionState p s)\<rparr>"
  by (simp add: setConnectionState_def spread_connection_def spread_def)

lemma handleMessage_Video_stats_view:
  "video (store (handleMessage now (Some (Video_stats d)) w)) =
     \<lparr> video_faceCount = 0,
       video_dominantEmotion =
         (case vw_dominant_emotion d of None \<Rightarrow> ''neutral''
          | Some x \<Rightarrow> if x = [] then ''neutral'' else x),
       video_confidence = (case vw_confidence d of None \<Rightarrow> 0 | Some x \<Rightarrow> x),
       video_totalFrames = (case vw_total_frames d of None \<Rightarrow> 0 | Some x \<Rightarrow> x),
       video_duration = (case vw_duration d of None \<Rightarrow> 0 | Some x \<Rightarrow> x),
       video_emotionCounts =
         [''happy'' \<mapsto> 0, ''neutral'' \<mapsto> 0, ''sad'' \<mapsto> 0, ''angry'' \<mapsto> 0] ++
         (case vw_emotion_counts d of None \<Rightarrow> Map.empty | Some m \<Rightarrow> m),
       video_isRecording = True \<rparr>"
  by (simp add: handleMessage_def setVideoStats_def or_num_def or_str_def default_counts_def
      Let_def split: option.splits)

lemma dashboard_Video_stats_view:
  "video (dashboard_onMessage (Video_stats d) s) =
     \<lparr> video_faceCount = (case vw_face_count d of None \<Rightarrow> 0 | Some x \<Rightarrow> x),
       video_dominantEmotion =
         (case vw_dominant_emotion d of None \<Rightarrow> ''neutral''
          | Some x \<Rightarrow> if x = [] then ''neutral'' else x),
       video_confidence = (case vw_confidence d of None \<Rightarrow> 0 | Some x \<Rightarrow> x),
       video_totalFrames = (case vw_total_frames d of None \<Rightarrow> 0 | Some x \<Rightarrow> x),
       video_duration = (case vw_duration d of None \<Rightarrow> 0 | Some x \<Rightarrow> x),
       video_emotionCounts = video_emotionCounts (video s),
       video_isRecording = True \<rparr>"
  by (simp add: dashboard_onMessage_def setVideoState_def spread_video_def spread_def
      or_num_def or_str_def split: option.splits)

text \<open>
  C8, as the code has it. Each of \<open>setAudioState\<close>, \<open>setVideoState\<close>, \<open>setAgentState\<close>
  and \<open>setConnectionState\<close>, for every store and every partial: each field of the view has
  the partial's value when the partial has the field, and its value before otherwise, and
  nothing outside that view changes. A \<open>video_stats\<close> frame of the push channel is not
  merged in that way. The hook's case for it replaces all seven fields of the video view:
  the dominant emotion, confidence, frame count and duration by the frame's value, or by
  the default (neutral, also for an empty label; 0) when the frame lacks the property;
  the emotion counts by the
  four keys happy, neutral, sad, angry at 0 overridden by the frame's counts; the face
  count by 0 and the recording flag by true. The dashboard's \<open>onMessage\<close> callback gives
  \<open>setVideoState\<close> a partial that always has six fields, with the same defaults for what
  the frame lacks, and has no emotion counts: applied to a store it replaces those six
  fields and keeps that store's emotion counts.
\<close>

theorem shallow_field_merge:
  "(audio_amplitude (audio (setAudioState pa s)) =
      (case pa_amplitude pa of None \<Rightarrow> audio_amplitude (audio s) | Some v \<Rightarrow> v) \<and>
    audio_isSpeech (audio (setAudioState pa s)) =
      (case pa_isSpeech pa of None \<Rightarrow> audio_isSpeech (audio s) | Some v \<Rightarrow> v) \<and>
    audio_duration (audio (setAudioState pa s)) =
      (case pa_duration pa of None \<Rightarrow> audio_duration (audio s) | Some v \<Rightarrow> v) \<and>
    audio_status (audio (setAudioState pa s)) =
      (case pa_status pa of None \<Rightarrow> audio_status (audio s) | Some v \<Rightarrow> v) \<and>
    audio_totalFrames (audio (setAudioState pa s)) =
      (case pa_totalFrames pa of None \<Rightarrow> audio_totalFrames (audio s) | Some v \<Rightarrow> v) \<and>
    audio_speechFrames (audio (setAudioState pa s)) =
      (case pa_speechFrames pa of None \<Rightarrow> audio_speechFrames (audio s) | Some v \<Rightarrow> v) \<and>
    audio_error (audio (setAudioState pa s)) =
      (case pa_error pa of None \<Rightarrow> audio_error (audio s) | Some v \<Rightarrow> v) \<and>
    setAudioState pa s = s\<lparr>audio := audio (setAudioState pa s)\<rparr>) \<and>
   (video_faceCount (video (setVideoState pv s)) =
      (case pv_faceCount pv of None \<Rightarrow> video_faceCount (video s) | Some v \<Rightarrow> v) \<and>
    video_dominantEmotion (video (setVideoState pv s)) =
      (case pv_dominantEmotion pv of None \<Rightarrow> video_dominantEmotion (video s) | Some v \<Rightarrow> v) \<and>
    video_confidence (video (setVideoState pv s)) =
      (case pv_confidence pv of None \<Rightarrow> video_confidence (video s) | Some v \<Rightarrow> v) \<and>
    video_totalFrames (video (setVideoState pv s)) =
      (case pv_totalFrames pv of None \<Rightarrow> video_totalFrames (video s) | Some v \<Rightarrow> v) \<and>
    video_duration (video (setVideoState pv s)) =
      (case pv_duration pv of None \<Rightarrow> video_duration (video s) | Some v \<Rightarrow> v) \<and>
    video_emotionCounts (video (setVideoState pv s)) =
      (case pv_emotionCounts pv of None \<Rightarrow> video_emotionCounts (video s) | Some v \<Rightarrow> v) \<and>
    video_isRecording (video (setVideoState pv s)) =
      (case pv_isRecording pv of None \<Rightarrow> video_isRecording (video s) | Some v \<Rightarrow> v) \<and>
    setVideoState pv s = s\<lparr>video := video (setVideoState pv s)\<rparr>) \<and>
   (agent_finalState (agent (setAgentState pg s)) =
      (case pg_finalState pg of None \<Rightarrow> agent_finalState (agent s) | Some v \<Rightarrow> v) \<and>
    agent_confidence (agent (setAgentState pg s)) =
      (case pg_confidence pg of None \<Rightarrow> agent_confidence (agent s) | Some v \<Rightarrow> v) \<and>
    agent_reasoning (agent (setAgentState pg s)) =
      (case pg_reasoning pg of None \<Rightarrow> agent_reasoning (agent s) | Some v \<Rightarrow> v) \<and>
    agent_recommendation (agent (setAgentState pg s)) =
      (case pg_recommendation pg of None \<Rightarrow> agent_recommendation (agent s) | Some v \<Rightarrow> v) \<and>
    setAgentState pg s = s\<lparr>agent := agent (setAgentState pg s)\<rparr>) \<and>
   (conn_isConnected (connection (setConnectionState pc s)) =
      (case pc_isConnected pc of None \<Rightarrow> conn_isConnected (connection s) | Some v \<Rightarrow> v) \<and>
    conn_isConnecting (connection (setConnectionState pc s)) =
      (case pc_isConnecting pc of None \<Rightarrow> conn_isConnecting (connection s) | Some v \<Rightarrow> v) \<and>
    conn_reconnectCount (connection (setConnectionState pc s)) =
      (case pc_reconnectCount pc of None \<Rightarrow> conn_reconnectCount (connection s) | Some v \<Rightarrow> v) \<and>
    conn_lastError (connection (setConnectionState pc s)) =
      (case pc_lastError pc of None \<Rightarrow> conn_lastError (connection s) | Some v \<Rightarrow> v) \<and>
    setConnectionState pc s = s\<lparr>connection := connection (setConnectionState pc s)\<rparr>) \<and>
   video (store (handleMessage now (Some (Video_stats d)) w)) =
     \<lparr> video_faceCount = 0,
       video_dominantEmotion =
         (case vw_dominant_emotion d of None \<Rightarrow> ''neutral''
          | Some x \<Rightarrow> if x = [] then ''neutral'' else x),
       video_confidence = (case vw_confidence d of None \<Rightarrow> 0 | Some x \<Rightarrow> x),
       video_totalFrames = (case vw_total_frames d of None \<Rightarrow> 0 | Some x \<Rightarrow> x),
       video_duration = (case vw_duration d of None \<Rightarrow> 0 | Some x \<Rightarrow> x),
       video_emotionCounts =
         [''happy'' \<mapsto> 0, ''neutral'' \<mapsto> 0, ''sad'' \<mapsto> 0, ''angry'' \<mapsto> 0] ++
         (case vw_emotion_counts d of None \<Rightarrow> Map.empty | Some m \<Rightarrow> m),
       video_isRecording = True \<rparr> \<and>
   video (dashboard_onMessage (Video_stats d) s) =
     \<lparr> video_faceCount = (case vw_face_count d of None \<Rightarrow> 0 | Some x \<Rightarrow> x),
       video_dominantEmotion =
         (case vw_dominant_emotion d of None \<Rightarrow> ''neutral''
          | Some x \<Rightarrow> if x = [] then ''neutral'' else x),
       video_confidence = (case vw_confidence d of None \<Rightarrow> 0 | Some x \<Rightarrow> x),
       video_totalFrames = (case vw_total_frames d of None \<Rightarrow> 0 | Some x \<Rightarrow> x),
       video_duration = (case vw_duration d of None \<Rightarrow> 0 | Some x \<Rightarrow> x),
       video_emotionCounts = video_emotionCounts (video s),
       video_isRecording = True \<rparr>"
  using setAudioState_fields [of pa s] setVideoState_fields [of pv s]
    setAgentState_fields [of pg s] setConnectionState_fields [of pc s]
    handleMessage_Video_stats_view [of now d w] dashboard_Video_stats_view [of d s]
  by blast

subsection \<open>Session reset\<close>

text \<open>
  C10. \<open>resetSession\<close> puts the session metadata, the audio, video and agent views, the
  timeline, the error slot and the three legacy mirrors back to their initial values, and
  leaves the connection state, the role and the loading flag as they were.
\<close>

theorem resetSession_frame:
  "session (resetSession s) = initialSession \<and>
   audio (resetSession s) = initialAudio \<and>
   video (resetSession s) = initialVideo \<and>
   agent (resetSession s) = initialAgent \<and>
   events (resetSession s) = [] \<and>
   error (resetSession s) = None \<and>
   videoStats (resetSession s) = None \<and>
   audioMetrics (resetSession s) = None \<and>
   finalResult (resetSession s) = None \<and>
   connection (resetSession s) = connection s \<and>
   role (resetSession s) = role s \<and>
   isLoading (resetSession s) = isLoading s"
  by (simp add: resetSession_def)

subsection \<open>Updates that arrive after a reset\<close>

text \<open>
  C1, as the code has it. The store keeps no session token and its actions take none, so
  an update that arrives after \<open>resetSession\<close> is applied like any other. A delayed
  \<open>setAudioMetrics\<close> with metrics always changes the state: it sets the audio mirror and
  the amplitude, speech flag and duration of the audio view to the metrics and the status
  to recording, and the other audio fields keep their initial values.
  \<open>setAudioMetrics(null)\<close> leaves the state as it is after the reset. A delayed
  \<open>setVideoState\<close> merges its partial into the initial video view; it leaves the state
  as it is after the reset exactly when that merge gives the initial video view back.
\<close>

theorem update_after_reset_is_applied:
  "setAudioMetrics (Some m) (resetSession s) =
     (resetSession s)
       \<lparr> audioMetrics := Some m,
         audio := \<lparr> audio_amplitude = lm_amplitude m, audio_isSpeech = lm_is_speech m,
                    audio_duration = lm_duration m, audio_status = AudioRecording,
                    audio_totalFrames = 0, audio_speechFrames = 0, audio_error = None \<rparr> \<rparr> \<and>
   setAudioMetrics (Some m) (resetSession s) \<noteq> resetSession s \<and>
   setAudioMetrics None (resetSession s) = resetSession s \<and>
   setVideoState p (resetSession s) =
     (resetSession s) \<lparr> video := spread_video initialVideo p \<rparr> \<and>
   (setVideoState p (resetSession s) = resetSession s) =
     (spread_video initialVideo p = initialVideo)"
proof -
  have ne: "setAudioMetrics (Some m) (resetSession s) \<noteq> resetSession s"
  proof
    assume "setAudioMetrics (Some m) (resetSession s) = resetSession s"
    then have "audioMetrics (setAudioMetrics (Some m) (resetSession s)) =
               audioMetrics (resetSession s)"
      by simp
    then show False by (simp add: setAudioMetrics_def resetSession_def Let_def)
  qed
  have v: "setVideoState p (resetSession s) =
           (resetSession s) \<lparr> video := spread_video initialVideo p \<rparr>"
    by (simp add: resetSession_def setVideoState_def)
  have iff: "(setVideoState p (resetSession s) = resetSession s) =
             (spread_video initialVideo p = initialVideo)"
  proof
    assume "setVideoState p (resetSession s) = resetSession s"
    then have "video (setVideoState p (resetSession s)) = video (resetSession s)" by simp
    then show "spread_video initialVideo p = initialVideo"
      by (simp add: setVideoState_def resetSession_def)
  next
    assume "spread_video initialVideo p = initialVideo"
    then show "setVideoState p (resetSession s) = resetSession s"
      by (simp add: setVideoState_def resetSession_def)
  qed
  from ne v iff show ?thesis
    by (simp add: resetSession_def setAudioMetrics_def initialAudio_def)
qed

text \<open>
  The claim C1 fails: after a reset of a store in mid-session, metrics fetched before the
  reset and delivered after it change the audio view and the audio mirror, and a video
  partial changes the frame count.
\<close>

theorem stale_update_counterexample:
  "audio (resetSession s_live) = initialAudio \<and>
   audioMetrics (resetSession s_live) = None \<and>
   audio_duration (audio (resetSession s_live)) = 0 \<and>
   audio_duration (audio (setAudioMetrics (Some m0) (resetSession s_live))) = 3 \<and>
   audio_status (audio (setAudioMetrics (Some m0) (resetSession s_live))) = AudioRecording \<and>
   audioMetrics (setAudioMetrics (Some m0) (resetSession s_live)) = Some m0 \<and>
   video_totalFrames (video (resetSession s_live)) = 0 \<and>
   video_totalFrames (video (setVideoState (frames_partial 10 5) (resetSession s_live))) = 10"
  by (simp add: resetSession_def setAudioMetrics_def setVideoState_def spread_video_def
      spread_def initialAudio_def initialVideo_def m0_def frames_partial_def)

subsection \<open>The final verdict\<close>

text \<open>
  C2, as the code has it. The store keeps the verdict written last. \<open>setFinalResult\<close>
  with a result sets \<open>finalState\<close> to the result's \<open>final_state\<close>, whatever it was before;
  \<open>setFinalResult(null)\<close> leaves it. \<open>setAgentState\<close> sets it to the partial's value, null
  included, when the partial has the field, and leaves it otherwise. \<open>resetSession\<close>
  sets it to null.
\<close>

theorem last_verdict_wins:
  "agent_finalState (agent (setFinalResult (Some r) s)) = Some (fr_final_state r) \<and>
   agent_finalState (agent (setFinalResult None s)) = agent_finalState (agent s) \<and>
   agent_finalState (agent (setAgentState p s)) =
     (case pg_finalState p of None \<Rightarrow> agent_finalState (agent s) | Some v \<Rightarrow> v) \<and>
   agent_finalState (agent (resetSession s)) = None"
  by (simp add: setFinalResult_def setAgentState_def spread_agent_def spread_def
      resetSession_def initialAgent_def Let_def)

text \<open>
  The claim C2 fails: with the verdict SATISFIED in place and no reset, a second final
  result and an agent partial each replace it by NEUTRAL, and an agent partial with a null
  \<open>finalState\<close> takes it back to null.
\<close>

theorem terminal_verdict_counterexample:
  "agent_finalState (agent (setFinalResult (Some rS) initialStore)) = Some ''SATISFIED'' \<and>
   agent_finalState (agent (setFinalResult (Some rN) (setFinalResult (Some rS) initialStore))) =
     Some ''NEUTRAL'' \<and>
   agent_finalState (agent (setAgentState pNeutral (setFinalResult (Some rS) initialStore))) =
     Some ''NEUTRAL'' \<and>
   agent_finalState (agent (setAgentState pNull (setFinalResult (Some rS) initialStore))) = None"
  by (simp add: setFinalResult_def setAgentState_def spread_agent_def spread_def rS_def rN_def
      pNeutral_def pNull_def initialStore_def Let_def)

subsection \<open>Frame and emotion counts\<close>

lemma hd_video_trace: "hd (video_trace s ps) = s"
  by (cases ps) simp_all

lemma video_trace_nonempty: "video_trace s ps \<noteq> []"
  by (cases ps) simp_all

lemma sorted_frames:
  "carried_frames_nondecreasing (video_totalFrames (video s)) ps \<Longrightarrow>
   sorted (map (\<lambda>st. video_totalFrames (video st)) (video_trace s ps))"
proof (induction ps arbitrary: s)
  case Nil
  then show ?case by simp
next
  case (Cons p ps)
  let ?s' = "setVideoState p s"
  have step: "video_totalFrames (video s) \<le> video_totalFrames (video ?s')"
    and rest: "carried_frames_nondecreasing (video_totalFrames (video ?s')) ps"
    using Cons.prems
    by (auto simp: setVideoState_def spread_video_def spread_def split: option.splits)
  from Cons.IH [OF rest]
  have srt: "sorted (map (\<lambda>st. video_totalFrames (video st)) (video_trace ?s' ps))" .
  have "\<forall>x \<in> set (map (\<lambda>st. video_totalFrames (video st)) (video_trace ?s' ps)).
          video_totalFrames (video ?s') \<le> x"
    using srt hd_video_trace [of ?s' ps] video_trace_nonempty [of ?s' ps]
    by (cases "video_trace ?s' ps") auto
  with step srt show ?case by fastforce
qed

lemma sorted_counts:
  "carried_count_nondecreasing k (video_emotionCounts (video s) k) ps \<Longrightarrow>
   sorted (map (\<lambda>st. video_emotionCounts (video st) k) (video_trace s ps))"
proof (induction ps arbitrary: s)
  case Nil
  then show ?case by simp
next
  case (Cons p ps)
  let ?s' = "setVideoState p s"
  have step: "video_emotionCounts (video s) k \<le> video_emotionCounts (video ?s') k"
    and rest: "carried_count_nondecreasing k (video_emotionCounts (video ?s') k) ps"
    using Cons.prems
    by (auto simp: setVideoState_def spread_video_def spread_def split: option.splits)
  from Cons.IH [OF rest]
  have srt: "sorted (map (\<lambda>st. video_emotionCounts (video st) k) (video_trace ?s' ps))" .
  have "\<forall>x \<in> set (map (\<lambda>st. video_emotionCounts (video st) k) (video_trace ?s' ps)).
          video_emotionCounts (video ?s') k \<le> x"
    using srt hd_video_trace [of ?s' ps] video_trace_nonempty [of ?s' ps]
    by (cases "video_trace ?s' ps") auto
  with step srt show ?case by fastforce
qed

text \<open>
  C3, as the code has it. The store does not compare an update with the view: after
  \<open>setVideoState\<close> the frame count and the emotion counts are the ones the update carries
  (the ones before, when it carries none). So across a sequence of video updates with no
  reset the frame count is non-decreasing when the carried frame counts are, and the
  count of an emotion is non-decreasing when the carried counts of that emotion are.
  \<open>resetSession\<close> sets the frame count to 0 and empties the emotion counts.
\<close>

theorem video_counts_follow_updates:
  "(carried_frames_nondecreasing (video_totalFrames (video s)) ps \<longrightarrow>
      sorted (map (\<lambda>st. video_totalFrames (video st)) (video_trace s ps))) \<and>
   (carried_count_nondecreasing k (video_emotionCounts (video s) k) ps \<longrightarrow>
      sorted (map (\<lambda>st. video_emotionCounts (video st) k) (video_trace s ps))) \<and>
   video_totalFrames (video (setVideoState p s)) =
     (case pv_totalFrames p of None \<Rightarrow> video_totalFrames (video s) | Some n \<Rightarrow> n) \<and>
   video_emotionCounts (video (setVideoState p s)) =
     (case pv_emotionCounts p of None \<Rightarrow> video_emotionCounts (video s) | Some m \<Rightarrow> m) \<and>
   video_totalFrames (video (resetSession s)) = 0 \<and>
   video_emotionCounts (video (resetSession s)) = Map.empty"
  using sorted_frames [of s ps] sorted_counts [of k s ps]
  by (simp add: setVideoState_def spread_video_def spread_def resetSession_def initialVideo_def)

theorem video_counts_follow_updates_witness:
  "carried_frames_nondecreasing (video_totalFrames (video initialStore))
     [frames_partial 10 5, frames_partial 25 12, frames_partial 40 20] \<and>
   carried_count_nondecreasing ''happy'' (video_emotionCounts (video initialStore) ''happy'')
     [frames_partial 10 5, frames_partial 25 12, frames_partial 40 20] \<and>
   sorted (map (\<lambda>st. video_totalFrames (video st))
     (video_trace initialStore [frames_partial 10 5, frames_partial 25 12, frames_partial 40 20])) \<and>
   sorted (map (\<lambda>st. video_emotionCounts (video st) ''happy'')
     (video_trace initialStore [frames_partial 10 5, frames_partial 25 12, frames_partial 40 20])) \<and>
   map (\<lambda>st. video_totalFrames (video st))
     (video_trace initialStore [frames_partial 10 5, frames_partial 25 12, frames_partial 40 20]) =
     [0, 10, 25, 40] \<and>
   map (\<lambda>st. video_emotionCounts (video st) ''happy'')
     (video_trace initialStore [frames_partial 10 5, frames_partial 25 12, frames_partial 40 20]) =
     [None, Some 5, Some 12, Some 20]"
  using video_counts_follow_updates
    [of initialStore "[frames_partial 10 5, frames_partial 25 12, frames_partial 40 20]"
        "''happy''" "frames_partial 10 5"]
  by (simp add: frames_partial_def initialStore_def initialVideo_def setVideoState_def
      spread_video_def spread_def)

section \<open>Properties of the push channel and the poll\<close>

lemmas hook_defs =
  wsRef_readyState_def close_socket_def ws_close_def ws_send_def live_sockets_def
  startPing_def stopPing_def ping_tick_def connect_def ws_onopen_def ws_onerror_def
  ws_onclose_def reconnect_timeout_def disconnect_def autoConnect_effect_def
  set_readyState_def transport_open_def transport_closed_def MAX_MISSED_PONGS_def

lemma w_open_eval:
  "wsRef w_open = Some 0 \<and> map readyState (sockets w_open) = [OPEN] \<and>
   ws_isConnected (state w_open) \<and> callbacks w_open = [OnConnect] \<and>
   missedPongsRef w_open = 0 \<and> pingIntervalRef w_open \<and>
   wsRef_readyState w_open = Some OPEN \<and> shouldReconnectRef w_open \<and>
   live_sockets w_open = 1"
  by (simp add: w_open_def w_connecting_def cfg0_def initialHook_def hook_defs
      initialState_def Let_def)

text \<open>
  The claim C3 fails: an update that carries fewer frames and a smaller happy count than
  the view holds lowers both, through \<open>setVideoState\<close> and through a \<open>video_stats\<close> frame
  on the open push channel, with no reset in between.
\<close>

theorem monotonicity_counterexample:
  "video_totalFrames (video (setVideoState (frames_partial 10 5) initialStore)) = 10 \<and>
   video_emotionCounts (video (setVideoState (frames_partial 10 5) initialStore)) ''happy'' =
     Some 5 \<and>
   video_totalFrames (video (setVideoState (frames_partial 4 2)
      (setVideoState (frames_partial 10 5) initialStore))) = 4 \<and>
   video_emotionCounts (video (setVideoState (frames_partial 4 2)
      (setVideoState (frames_partial 10 5) initialStore))) ''happy'' = Some 2 \<and>
   video_totalFrames (video (store (handleMessage 1 (Some (frame 10 5)) w_open))) = 10 \<and>
   video_emotionCounts (video (store (handleMessage 1 (Some (frame 10 5)) w_open))) ''happy'' =
     Some 5 \<and>
   video_totalFrames (video (store (handleMessage 2 (Some (frame 4 2))
      (handleMessage 1 (Some (frame 10 5)) w_open)))) = 4 \<and>
   video_emotionCounts (video (store (handleMessage 2 (Some (frame 4 2))
      (handleMessage 1 (Some (frame 10 5)) w_open)))) ''happy'' = Some 2"
  by (simp add: setVideoState_def spread_video_def spread_def frames_partial_def frame_def
      initialStore_def initialVideo_def handleMessage_def setVideoStats_def or_num_def
      or_str_def default_counts_def Let_def
      w_open_def w_connecting_def cfg0_def initialHook_def hook_defs initialState_def)

subsection \<open>Heartbeat\<close>

lemma ping_tick_send:
  assumes "wsRef w = Some i" "wsRef_readyState w = Some OPEN" "missedPongsRef w < 3"
  shows "ping_tick w =
           w\<lparr> missedPongsRef := missedPongsRef w + 1,
              sent := sent w @ [(i, Ping)],
              state := (state w)\<lparr>ws_missedPongs := missedPongsRef w + 1\<rparr> \<rparr>"
  using assms by (simp add: ping_tick_def ws_send_def MAX_MISSED_PONGS_def Let_def)

lemma ping_tick_close:
  assumes "wsRef w = Some i" "wsRef_readyState w = Some OPEN" "3 \<le> missedPongsRef w"
  shows "ping_tick w = ws_close i (w\<lparr>missedPongsRef := missedPongsRef w + 1\<rparr>)"
  using assms by (simp add: ping_tick_def MAX_MISSED_PONGS_def Let_def)

lemma ping_tick_counter:
  assumes "wsRef_readyState w = Some OPEN"
  shows "missedPongsRef (ping_tick w) = missedPongsRef w + 1"
proof -
  from assms obtain i where i: "wsRef w = Some i"
    by (auto simp: wsRef_readyState_def split: option.splits)
  show ?thesis
  proof (cases "missedPongsRef w < 3")
    case True
    with i assms show ?thesis by (simp add: ping_tick_send)
  next
    case False
    with i assms show ?thesis by (simp add: ping_tick_close ws_close_def)
  qed
qed

lemma ping_tick_send_open:
  assumes "wsRef w = Some i" "wsRef_readyState w = Some OPEN" "missedPongsRef w < 3"
  shows "wsRef (ping_tick w) = Some i \<and> wsRef_readyState (ping_tick w) = Some OPEN \<and>
         missedPongsRef (ping_tick w) = missedPongsRef w + 1 \<and>
         sent (ping_tick w) = sent w @ [(i, Ping)] \<and>
         shouldReconnectRef (ping_tick w) = shouldReconnectRef w"
  using assms
  by (simp add: ping_tick_send) (auto simp: wsRef_readyState_def split: if_splits)

lemma ping_tick_close_closing:
  assumes "wsRef w = Some i" "wsRef_readyState w = Some OPEN" "3 \<le> missedPongsRef w"
  shows "wsRef_readyState (ping_tick w) = Some CLOSING \<and> sent (ping_tick w) = sent w \<and>
         shouldReconnectRef (ping_tick w) = shouldReconnectRef w"
  using assms
  by (simp add: ping_tick_close)
     (auto simp: wsRef_readyState_def ws_close_def close_socket_def split: if_splits)

lemma three_ticks:
  assumes "wsRef w = Some i" "wsRef_readyState w = Some OPEN" "missedPongsRef w = 0"
  shows "wsRef (ticks 3 w) = Some i \<and> wsRef_readyState (ticks 3 w) = Some OPEN \<and>
         missedPongsRef (ticks 3 w) = 3 \<and>
         sent (ticks 3 w) = sent w @ [(i, Ping), (i, Ping), (i, Ping)] \<and>
         shouldReconnectRef (ticks 3 w) = shouldReconnectRef w"
proof -
  let ?w1 = "ping_tick w"
  let ?w2 = "ping_tick ?w1"
  let ?w3 = "ping_tick ?w2"
  have 1: "wsRef ?w1 = Some i \<and> wsRef_readyState ?w1 = Some OPEN \<and> missedPongsRef ?w1 = 1 \<and>
           sent ?w1 = sent w @ [(i, Ping)] \<and> shouldReconnectRef ?w1 = shouldReconnectRef w"
    using ping_tick_send_open [of w i] assms by simp
  have 2: "wsRef ?w2 = Some i \<and> wsRef_readyState ?w2 = Some OPEN \<and> missedPongsRef ?w2 = 2 \<and>
           sent ?w2 = sent w @ [(i, Ping), (i, Ping)] \<and>
           shouldReconnectRef ?w2 = shouldReconnectRef w"
    using ping_tick_send_open [of ?w1 i] 1 by simp
  have 3: "wsRef ?w3 = Some i \<and> wsRef_readyState ?w3 = Some OPEN \<and> missedPongsRef ?w3 = 3 \<and>
           sent ?w3 = sent w @ [(i, Ping), (i, Ping), (i, Ping)] \<and>
           shouldReconnectRef ?w3 = shouldReconnectRef w"
    using ping_tick_send_open [of ?w2 i] 2 by simp
  have "ticks 3 w = ?w3" by (simp add: numeral_3_eq_3)
  with 3 show ?thesis by simp
qed

lemma fourth_tick:
  assumes "wsRef w = Some i" "wsRef_readyState w = Some OPEN" "missedPongsRef w = 0"
  shows "wsRef_readyState (ticks 4 w) = Some CLOSING \<and> sent (ticks 4 w) = sent (ticks 3 w) \<and>
         shouldReconnectRef (ticks 4 w) = shouldReconnectRef w"
proof -
  have eq: "ticks 4 w = ping_tick (ticks 3 w)"
    by (simp add: numeral_3_eq_3 eval_nat_numeral)
  from three_ticks [OF assms] ping_tick_close_closing [of "ticks 3 w" i]
  show ?thesis unfolding eq by simp
qed

lemma handleMessage_Pong: "missedPongsRef (handleMessage now (Some Pong) w) = 0"
  by (simp add: handleMessage_def Let_def)

lemma handleMessage_Heartbeat:
  "missedPongsRef (handleMessage now (Some Heartbeat) w) = missedPongsRef w \<and>
   ws_lastHeartbeat (state (handleMessage now (Some Heartbeat) w)) = Some now"
  by (simp add: handleMessage_def Let_def)

lemma transport_closed_reconnect:
  assumes "shouldReconnectRef w" "rc < reconnectAttempts cfg"
  shows "reconnectTimeoutRef (transport_closed cfg rc i w) \<and>
         \<not> pingIntervalRef (transport_closed cfg rc i w) \<and>
         \<not> ws_isConnected (state (transport_closed cfg rc i w))"
  using assms
  by (simp add: transport_closed_def ws_onclose_def stopPing_def set_readyState_def Let_def)

text \<open>
  C4, as the code has it. While the socket of the hook is open, each probe tick adds one
  to the missed-pong counter and a \<open>pong\<close> frame sets it to 0; a \<open>heartbeat\<close> frame leaves
  the counter as it is (it only records the time). From a counter of 0, three ticks in a
  row with no pong leave the counter at 3 and the socket open; the fourth tick calls
  \<open>close()\<close> on the socket and sends no ping, with no close event from the server. When
  the socket's close event then runs the close handler, a reconnect is scheduled if
  auto-reconnect is on and the reconnect count the handler captured is below
  \<open>reconnectAttempts\<close>.
\<close>

theorem heartbeat_failure_detection:
  assumes "wsRef_readyState w = Some OPEN"
  shows "missedPongsRef (ping_tick w) = missedPongsRef w + 1 \<and>
         missedPongsRef (handleMessage now (Some Pong) w) = 0 \<and>
         missedPongsRef (handleMessage now (Some Heartbeat) w) = missedPongsRef w \<and>
         (missedPongsRef w = 0 \<longrightarrow>
            wsRef_readyState (ticks 3 w) = Some OPEN \<and> missedPongsRef (ticks 3 w) = 3 \<and>
            wsRef_readyState (ticks 4 w) = Some CLOSING \<and>
            sent (ticks 4 w) = sent (ticks 3 w)) \<and>
         (missedPongsRef w = 0 \<and> shouldReconnectRef w \<and> rc < reconnectAttempts cfg \<longrightarrow>
            reconnectTimeoutRef (transport_closed cfg rc i (ticks 4 w)))"
proof -
  from assms obtain j where j: "wsRef w = Some j"
    by (auto simp: wsRef_readyState_def split: option.splits)
  have a: "missedPongsRef (ping_tick w) = missedPongsRef w + 1"
    using assms by (rule ping_tick_counter)
  have b: "missedPongsRef (handleMessage now (Some Pong) w) = 0"
    by (rule handleMessage_Pong)
  have c: "missedPongsRef (handleMessage now (Some Heartbeat) w) = missedPongsRef w"
    by (simp add: handleMessage_Heartbeat)
  have d: "wsRef_readyState (ticks 3 w) = Some OPEN \<and> missedPongsRef (ticks 3 w) = 3 \<and>
        wsRef_readyState (ticks 4 w) = Some CLOSING \<and> sent (ticks 4 w) = sent (ticks 3 w)"
    if "missedPongsRef w = 0"
    using three_ticks [OF j assms that] fourth_tick [OF j assms that] by simp
  have e: "reconnectTimeoutRef (transport_closed cfg rc i (ticks 4 w))"
    if "missedPongsRef w = 0" "shouldReconnectRef w" "rc < reconnectAttempts cfg"
    using fourth_tick [OF j assms that(1)] that
      transport_closed_reconnect [of "ticks 4 w" rc cfg i]
    by simp
  from a b c d e show ?thesis by blast
qed

theorem heartbeat_failure_detection_witness:
  "wsRef_readyState w_open = Some OPEN \<and> missedPongsRef w_open = 0 \<and>
   shouldReconnectRef w_open \<and> (0::nat) < reconnectAttempts cfg0 \<and>
   missedPongsRef (ping_tick w_open) = 1 \<and>
   missedPongsRef (ticks 3 w_open) = 3 \<and>
   wsRef_readyState (ticks 3 w_open) = Some OPEN \<and>
   wsRef_readyState (ticks 4 w_open) = Some CLOSING \<and>
   reconnectTimeoutRef (transport_closed cfg0 0 0 (ticks 4 w_open))"
  using heartbeat_failure_detection [of w_open 0 0 cfg0 0] w_open_eval
  by (simp add: cfg0_def)

text \<open>
  The claim C4 fails where it lets a heartbeat reset the counter: after one tick a
  heartbeat frame leaves the counter at 1, and with a heartbeat handled after every tick
  the fourth tick still closes the socket.
\<close>

theorem heartbeat_counterexample:
  "missedPongsRef (ping_tick w_open) = 1 \<and>
   missedPongsRef (handleMessage 1000 (Some Heartbeat) (ping_tick w_open)) = 1 \<and>
   wsRef_readyState (ping_tick (hb (ping_tick (hb (ping_tick (hb (ping_tick w_open))))))) =
     Some CLOSING"
  by (simp add: w_open_def w_connecting_def cfg0_def initialHook_def hook_defs initialState_def
      hb_def handleMessage_def Let_def)

subsection \<open>Connecting twice\<close>

text \<open>
  C6 at the input where the code departs from it. After the first \<open>connect\<close> the socket
  is still connecting; a second \<open>connect\<close> constructs a second socket for the same
  session and makes the ref point to it, and the first socket is left connecting.
\<close>

theorem connect_while_connecting_opens_second_socket:
  "wsRef_readyState w_connecting = Some CONNECTING \<and>
   ws_isConnecting (state w_connecting) \<and>
   live_sockets w_connecting = 1 \<and>
   wsRef (connect cfg0 w_connecting) = Some 1 \<and>
   map readyState (sockets (connect cfg0 w_connecting)) = [CONNECTING, CONNECTING] \<and>
   map url (sockets (connect cfg0 w_connecting)) =
     [''ws://localhost:8000/ws/session/SESS_1'', ''ws://localhost:8000/ws/session/SESS_1''] \<and>
   live_sockets (connect cfg0 w_connecting) = 2"
  by (simp add: w_connecting_def cfg0_def initialHook_def hook_defs initialState_def Let_def
      WS_BASE_URL_def)

text \<open>While the socket of the hook is open, \<open>connect\<close> changes nothing.\<close>

theorem connect_while_open_is_noop:
  "wsRef_readyState w = Some OPEN \<Longrightarrow> connect cfg w = w"
  by (simp add: connect_def)

theorem connect_while_open_is_noop_witness:
  "wsRef_readyState w_open = Some OPEN \<and> connect cfg0 w_open = w_open \<and>
   live_sockets (connect cfg0 w_open) = 1"
  using connect_while_open_is_noop [of w_open cfg0] w_open_eval
  by simp

subsection \<open>Disconnecting and disabling the poll\<close>











subsection \<open>Video frames on the push channel\<close>

text \<open>
  The claim C8 fails on the push channel: with 10 frames, 5 happy frames and confidence
  9/10 in the view, a \<open>video_stats\<close> frame that has only the dominant emotion sets the
  frame count, the happy count and the confidence to 0 in the hook's own update, and the
  frame count to 0 in the partial that the dashboard builds from it.
\<close>

theorem frame_missing_fields_counterexample:
  "video_totalFrames (video (store (handleMessage 1 (Some (frame 10 5)) w_open))) = 10 \<and>
   video_emotionCounts (video (store (handleMessage 1 (Some (frame 10 5)) w_open))) ''happy'' =
     Some 5 \<and>
   video_confidence (video (store (handleMessage 1 (Some (frame 10 5)) w_open))) = 9/10 \<and>
   video_totalFrames (video (store (handleMessage 2 (Some frame_missing)
      (handleMessage 1 (Some (frame 10 5)) w_open)))) = 0 \<and>
   video_emotionCounts (video (store (handleMessage 2 (Some frame_missing)
      (handleMessage 1 (Some (frame 10 5)) w_open)))) ''happy'' = Some 0 \<and>
   video_confidence (video (store (handleMessage 2 (Some frame_missing)
      (handleMessage 1 (Some (frame 10 5)) w_open)))) = 0 \<and>
   video_totalFrames (video (setVideoState (frames_partial 10 5) initialStore)) = 10 \<and>
   video_totalFrames (video (dashboard_onMessage frame_missing
      (setVideoState (frames_partial 10 5) initialStore))) = 0"
  by (simp add: setVideoState_def spread_video_def spread_def frames_partial_def frame_def
      frame_missing_def dashboard_onMessage_def
      initialStore_def initialVideo_def handleMessage_def setVideoStats_def or_num_def
      or_str_def default_counts_def Let_def
      w_open_def w_connecting_def cfg0_def initialHook_def hook_defs initialState_def)

end
